theory Spec2Isabelle
  imports Main "HOL-Library.Word"
begin

text \<open>
  The replicated state machine of Raft3D: the entities of \<open>pkg/models\<close> with their
  validation, and the FSM of \<open>internal/fsm\<close> with \<open>Apply\<close>, \<open>Snapshot\<close>, \<open>Persist\<close>,
  \<open>Restore\<close> and the read accessors. The store keeps pointers, and one branch of \<open>Apply\<close>
  writes through them, so the model keeps the pointers too. \<open>encoding/json\<close> is outside the
  repository: byte strings are represented by what decoding yields on them. The lock of the
  store and the consensus layer are not modelled; \<open>Apply\<close> is taken as one atomic step.
\<close>

section \<open>Domain entities (pkg/models/models.go)\<close>

text \<open>
  Go's \<open>int\<close> is taken at its 64-bit width: subtraction wraps, comparisons are signed
  (\<open><s\<close>, \<open>\<le>s\<close>, read through \<open>sint\<close>).
\<close>

type_synonym go_int = "64 word"

record Printer =
  ID :: string
  Company :: string
  Model :: string

record Filament =
  ID :: string
  Type :: string
  Color :: string
  TotalWeightInGrams :: go_int
  RemainingWeightInGrams :: go_int

record PrintJob =
  ID :: string
  PrinterID :: string
  FilamentID :: string
  Filepath :: string
  PrintWeightInGrams :: go_int
  Status :: string

definition StatusQueued :: string where "StatusQueued = ''Queued''"
definition StatusRunning :: string where "StatusRunning = ''Running''"
definition StatusDone :: string where "StatusDone = ''Done''"
definition StatusCancelled :: string where "StatusCancelled = ''Cancelled''"

text \<open>
  Every \<open>fmt.Errorf\<close> of the two packages is one constructor; the values formatted into
  the message (\<open>%s\<close>, \<open>%d\<close>) are its arguments. The text of the underlying
  \<open>encoding/json\<close> or sink error (\<open>%v\<close>) is not kept. Two calls with the same format
  string share a constructor, as they produce the same message. \<open>SinkError\<close> stands for
  an error that \<open>Persist\<close> receives from the sink and returns unchanged.
\<close>

datatype error =
    FailedUnmarshalCommand          \<comment> \<open>failed to unmarshal command: %v\<close>
  | UnknownEntityType string        \<comment> \<open>unknown entity type: %s\<close>
  | FailedUnmarshalPrinter          \<comment> \<open>failed to unmarshal printer: %v\<close>
  | FailedUnmarshalFilament         \<comment> \<open>failed to unmarshal filament: %v\<close>
  | FailedUnmarshalPrintJob         \<comment> \<open>failed to unmarshal print job: %v\<close>
  | FailedUnmarshalStatusChange     \<comment> \<open>failed to unmarshal status change: %v\<close>
  | FailedUnmarshalID               \<comment> \<open>failed to unmarshal ID: %v\<close>
  | PrinterIDEmpty                  \<comment> \<open>printer ID cannot be empty\<close>
  | PrinterCompanyEmpty             \<comment> \<open>printer company cannot be empty\<close>
  | PrinterModelEmpty               \<comment> \<open>printer model cannot be empty\<close>
  | FilamentIDEmpty                 \<comment> \<open>filament ID cannot be empty\<close>
  | FilamentTypeInvalid             \<comment> \<open>filament type must be one of: PLA, PETG, ABS, TPU\<close>
  | FilamentColorEmpty              \<comment> \<open>filament color cannot be empty\<close>
  | TotalWeightNotPositive          \<comment> \<open>total weight must be positive\<close>
  | RemainingWeightOutOfRange       \<comment> \<open>remaining weight must be between 0 and total weight\<close>
  | PrintJobIDEmpty                 \<comment> \<open>print job ID cannot be empty\<close>
  | FilepathEmpty                   \<comment> \<open>filepath cannot be empty\<close>
  | PrintWeightNotPositive          \<comment> \<open>print weight must be positive\<close>
  | StatusInvalid                   \<comment> \<open>status must be one of: Queued, Running, Done, Cancelled\<close>
  | InvalidTransition string string \<comment> \<open>invalid status transition from %s to %s\<close>
  | PrinterNotFound string          \<comment> \<open>printer not found: %s\<close>
  | FilamentNotFound string         \<comment> \<open>filament not found: %s\<close>
  | PrintJobNotFound string         \<comment> \<open>print job not found: %s\<close>
  | InsufficientFilament go_int go_int
                                    \<comment> \<open>insufficient filament: required %d g, available %d g\<close>
  | UnknownPrinterOperation string  \<comment> \<open>unknown printer operation: %s\<close>
  | UnknownFilamentOperation string \<comment> \<open>unknown filament operation: %s\<close>
  | UnknownPrintJobOperation string \<comment> \<open>unknown print job operation: %s\<close>
  | FailedMarshalSnapshot           \<comment> \<open>failed to marshal snapshot: %v\<close>
  | FailedWriteSnapshot             \<comment> \<open>failed to write snapshot: %v\<close>
  | FailedDecodeSnapshot            \<comment> \<open>failed to decode snapshot: %v\<close>
  | SinkError                       \<comment> \<open>an error of \<open>sink.Close()\<close>, passed on as it is\<close>

text \<open>The \<open>Validate\<close> methods return \<open>nil\<close> (\<open>None\<close>) or the first failing check.\<close>

definition Printer_Validate :: "Printer \<Rightarrow> error option" where
  "Printer_Validate p =
     (if Printer.ID p = [] then Some PrinterIDEmpty
      else if Company p = [] then Some PrinterCompanyEmpty
      else if Model p = [] then Some PrinterModelEmpty
      else None)"

definition validTypes :: "string list" where
  "validTypes = [''PLA'', ''PETG'', ''ABS'', ''TPU'']"

definition Filament_Validate :: "Filament \<Rightarrow> error option" where
  "Filament_Validate f =
     (if Filament.ID f = [] then Some FilamentIDEmpty
      else if Type f \<notin> set validTypes then Some FilamentTypeInvalid
      else if Color f = [] then Some FilamentColorEmpty
      else if TotalWeightInGrams f \<le>s 0 then Some TotalWeightNotPositive
      else if RemainingWeightInGrams f <s 0 \<or> TotalWeightInGrams f <s RemainingWeightInGrams f
        then Some RemainingWeightOutOfRange
      else None)"

definition validStatuses :: "string list" where
  "validStatuses = [StatusQueued, StatusRunning, StatusDone, StatusCancelled]"

definition PrintJob_Validate :: "PrintJob \<Rightarrow> error option" where
  "PrintJob_Validate j =
     (if PrintJob.ID j = [] then Some PrintJobIDEmpty
      else if PrinterID j = [] then Some PrinterIDEmpty
      else if FilamentID j = [] then Some FilamentIDEmpty
      else if Filepath j = [] then Some FilepathEmpty
      else if PrintWeightInGrams j \<le>s 0 then Some PrintWeightNotPositive
      else if PrintJob.Status j \<notin> set validStatuses then Some StatusInvalid
      else None)"

text \<open>
  \<open>validTransitions\<close> is the nested map literal of \<open>ValidateTransition\<close>: the outer
  lookup can miss (\<open>ok\<close> false), the inner lookup of a missing key reads \<open>false\<close>.
\<close>

definition validTransitions :: "(string \<times> string list) list" where
  "validTransitions =
     [(StatusQueued, [StatusRunning, StatusCancelled]),
      (StatusRunning, [StatusDone, StatusCancelled])]"

definition ValidateTransition :: "PrintJob \<Rightarrow> string \<Rightarrow> error option" where
  "ValidateTransition j newStatus =
     (case map_of validTransitions (PrintJob.Status j) of
        Some transitions \<Rightarrow>
          if newStatus \<in> set transitions then None
          else Some (InvalidTransition (PrintJob.Status j) newStatus)
      | None \<Rightarrow> Some (InvalidTransition (PrintJob.Status j) newStatus))"

section \<open>Commands (internal/fsm/fsm.go)\<close>

record PrintJobStatusChange =
  ID :: string
  Status :: string

text \<open>
  \<open>Payload\<close> is a \<open>json.RawMessage\<close>: bytes that the FSM only ever hands to
  \<open>json.Unmarshal\<close>, at one of five target types. The bytes are represented by what each of
  those five calls yields on them: \<open>None\<close> when \<open>json.Unmarshal\<close> returns an error,
  the decoded value otherwise. No relation between the five readings is assumed.
\<close>

record RawMessage =
  asPrinter :: "Printer option"
  asFilament :: "Filament option"
  asPrintJob :: "PrintJob option"
  asStatusChange :: "PrintJobStatusChange option"
  asID :: "string option"

record Command =
  Op :: string
  EntityType :: string
  Payload :: RawMessage

text \<open>
  \<open>log.Data\<close>, likewise, is represented by the outcome of
  \<open>json.Unmarshal(log.Data, &cmd)\<close>: \<open>None\<close> for an error.
\<close>

type_synonym LogData = "Command option"

definition EntityPrinter :: string where "EntityPrinter = ''printer''"
definition EntityFilament :: string where "EntityFilament = ''filament''"
definition EntityPrintJob :: string where "EntityPrintJob = ''print_job''"

definition OpCreate :: string where "OpCreate = ''create''"
definition OpUpdate :: string where "OpUpdate = ''update''"
definition OpDelete :: string where "OpDelete = ''delete''"

section \<open>The store\<close>

text \<open>
  The three Go maps hold pointers (\<open>map[string]*models.Printer\<close> and so on), and
  \<open>applyPrintJobCommand\<close> writes through them. The records they point to are kept in
  three cell lists, one per entity type; a pointer is an index into its list. Taking the
  address of a freshly decoded record (\<open>&printer\<close>) appends a cell, so a new pointer never
  equals an old one. Cells that no map entry points to any more stay in place: a pointer
  handed out earlier still reads them.
\<close>

record Store =
  printers :: "string \<rightharpoonup> nat"
  filaments :: "string \<rightharpoonup> nat"
  printJobs :: "string \<rightharpoonup> nat"
  printerCells :: "Printer list"
  filamentCells :: "Filament list"
  printJobCells :: "PrintJob list"

definition NewStore :: Store where
  "NewStore =
     \<lparr>printers = Map.empty, filaments = Map.empty, printJobs = Map.empty,
      printerCells = [], filamentCells = [], printJobCells = []\<rparr>"

section \<open>Apply\<close>

definition applyPrinterCommand :: "Command \<Rightarrow> Store \<Rightarrow> error option \<times> Store" where
  "applyPrinterCommand cmd s =
     (if Op cmd = OpCreate then
        (case asPrinter (Payload cmd) of
           None \<Rightarrow> (Some FailedUnmarshalPrinter, s)
         | Some printer \<Rightarrow>
             (case Printer_Validate printer of
                Some err \<Rightarrow> (Some err, s)
              | None \<Rightarrow>
                  (None, s\<lparr>printers := (printers s)(Printer.ID printer \<mapsto> length (printerCells s)),
                            printerCells := printerCells s @ [printer]\<rparr>)))
      else if Op cmd = OpUpdate then
        (case asPrinter (Payload cmd) of
           None \<Rightarrow> (Some FailedUnmarshalPrinter, s)
         | Some printer \<Rightarrow>
             (case Printer_Validate printer of
                Some err \<Rightarrow> (Some err, s)
              | None \<Rightarrow>
                  (case printers s (Printer.ID printer) of
                     None \<Rightarrow> (Some (PrinterNotFound (Printer.ID printer)), s)
                   | Some _ \<Rightarrow>
                       (None, s\<lparr>printers := (printers s)(Printer.ID printer \<mapsto> length (printerCells s)),
                                 printerCells := printerCells s @ [printer]\<rparr>))))
      else if Op cmd = OpDelete then
        (case asID (Payload cmd) of
           None \<Rightarrow> (Some FailedUnmarshalID, s)
         | Some id' \<Rightarrow>
             (case printers s id' of
                None \<Rightarrow> (Some (PrinterNotFound id'), s)
              | Some _ \<Rightarrow> (None, s\<lparr>printers := (printers s)(id' := None)\<rparr>)))
      else (Some (UnknownPrinterOperation (Op cmd)), s))"

definition applyFilamentCommand :: "Command \<Rightarrow> Store \<Rightarrow> error option \<times> Store" where
  "applyFilamentCommand cmd s =
     (if Op cmd = OpCreate then
        (case asFilament (Payload cmd) of
           None \<Rightarrow> (Some FailedUnmarshalFilament, s)
         | Some filament \<Rightarrow>
             (case Filament_Validate filament of
                Some err \<Rightarrow> (Some err, s)
              | None \<Rightarrow>
                  (None, s\<lparr>filaments := (filaments s)(Filament.ID filament \<mapsto> length (filamentCells s)),
                            filamentCells := filamentCells s @ [filament]\<rparr>)))
      else if Op cmd = OpUpdate then
        (case asFilament (Payload cmd) of
           None \<Rightarrow> (Some FailedUnmarshalFilament, s)
         | Some filament \<Rightarrow>
             (case Filament_Validate filament of
                Some err \<Rightarrow> (Some err, s)
              | None \<Rightarrow>
                  (case filaments s (Filament.ID filament) of
                     None \<Rightarrow> (Some (FilamentNotFound (Filament.ID filament)), s)
                   | Some _ \<Rightarrow>
                       (None, s\<lparr>filaments := (filaments s)(Filament.ID filament \<mapsto> length (filamentCells s)),
                                 filamentCells := filamentCells s @ [filament]\<rparr>))))
      else if Op cmd = OpDelete then
        (case asID (Payload cmd) of
           None \<Rightarrow> (Some FailedUnmarshalID, s)
         | Some id' \<Rightarrow>
             (case filaments s id' of
                None \<Rightarrow> (Some (FilamentNotFound id'), s)
              | Some _ \<Rightarrow> (None, s\<lparr>filaments := (filaments s)(id' := None)\<rparr>)))
      else (Some (UnknownFilamentOperation (Op cmd)), s))"

text \<open>
  The subtraction of the \<open>Done\<close> branch, with the clamp that follows it:
  \<open>filament.RemainingWeightInGrams -= printJob.PrintWeightInGrams\<close>, then \<open>0\<close> if the
  result is negative.
\<close>

definition deduct :: "go_int \<Rightarrow> go_int \<Rightarrow> go_int" where
  "deduct remaining weight = (let r = remaining - weight in if r <s 0 then 0 else r)"

definition applyPrintJobCommand :: "Command \<Rightarrow> Store \<Rightarrow> error option \<times> Store" where
  "applyPrintJobCommand cmd s =
     (if Op cmd = OpCreate then
        (case asPrintJob (Payload cmd) of
           None \<Rightarrow> (Some FailedUnmarshalPrintJob, s)
         | Some decoded \<Rightarrow>
             (let printJob = decoded\<lparr>PrintJob.Status := StatusQueued\<rparr> in
              case PrintJob_Validate printJob of
                Some err \<Rightarrow> (Some err, s)
              | None \<Rightarrow>
                  (case printers s (PrinterID printJob) of
                     None \<Rightarrow> (Some (PrinterNotFound (PrinterID printJob)), s)
                   | Some _ \<Rightarrow>
                       (case filaments s (FilamentID printJob) of
                          None \<Rightarrow> (Some (FilamentNotFound (FilamentID printJob)), s)
                        | Some fp \<Rightarrow>
                            (let filament = filamentCells s ! fp in
                             if RemainingWeightInGrams filament <s PrintWeightInGrams printJob then
                               (Some (InsufficientFilament (PrintWeightInGrams printJob)
                                        (RemainingWeightInGrams filament)), s)
                             else
                               (None, s\<lparr>printJobs := (printJobs s)(PrintJob.ID printJob \<mapsto> length (printJobCells s)),
                                         printJobCells := printJobCells s @ [printJob]\<rparr>))))))
      else if Op cmd = OpUpdate then
        (case asStatusChange (Payload cmd) of
           None \<Rightarrow> (Some FailedUnmarshalStatusChange, s)
         | Some statusChange \<Rightarrow>
             (case printJobs s (PrintJobStatusChange.ID statusChange) of
                None \<Rightarrow> (Some (PrintJobNotFound (PrintJobStatusChange.ID statusChange)), s)
              | Some jp \<Rightarrow>
                  (let printJob = printJobCells s ! jp in
                   case ValidateTransition printJob (PrintJobStatusChange.Status statusChange) of
                     Some err \<Rightarrow> (Some err, s)
                   | None \<Rightarrow>
                       if PrintJobStatusChange.Status statusChange = StatusDone then
                         (case filaments s (FilamentID printJob) of
                            None \<Rightarrow> (Some (FilamentNotFound (FilamentID printJob)), s)
                          | Some fp \<Rightarrow>
                              (let filament = filamentCells s ! fp in
                               (None,
                                s\<lparr>filamentCells := (filamentCells s)
                                     [fp := filament\<lparr>RemainingWeightInGrams :=
                                        deduct (RemainingWeightInGrams filament) (PrintWeightInGrams printJob)\<rparr>],
                                   printJobCells := (printJobCells s)
                                     [jp := printJob\<lparr>PrintJob.Status := PrintJobStatusChange.Status statusChange\<rparr>]\<rparr>)))
                       else
                         (None,
                          s\<lparr>printJobCells := (printJobCells s)
                               [jp := printJob\<lparr>PrintJob.Status := PrintJobStatusChange.Status statusChange\<rparr>]\<rparr>))))
      else if Op cmd = OpDelete then
        (case asID (Payload cmd) of
           None \<Rightarrow> (Some FailedUnmarshalID, s)
         | Some id' \<Rightarrow>
             (case printJobs s id' of
                None \<Rightarrow> (Some (PrintJobNotFound id'), s)
              | Some _ \<Rightarrow> (None, s\<lparr>printJobs := (printJobs s)(id' := None)\<rparr>)))
      else (Some (UnknownPrintJobOperation (Op cmd)), s))"

text \<open>
  \<open>Apply\<close> returns its \<open>interface{}\<close> result, which is \<open>nil\<close> or an error, together with
  the store it leaves behind.
\<close>

definition Apply :: "LogData \<Rightarrow> Store \<Rightarrow> error option \<times> Store" where
  "Apply data s =
     (case data of
        None \<Rightarrow> (Some FailedUnmarshalCommand, s)
      | Some cmd \<Rightarrow>
          if EntityType cmd = EntityPrinter then applyPrinterCommand cmd s
          else if EntityType cmd = EntityFilament then applyFilamentCommand cmd s
          else if EntityType cmd = EntityPrintJob then applyPrintJobCommand cmd s
          else (Some (UnknownEntityType (EntityType cmd)), s))"

text \<open>The committed log, applied entry by entry: the final store, and the results.\<close>

fun run :: "LogData list \<Rightarrow> Store \<Rightarrow> Store" where
  "run [] s = s"
| "run (d # ds) s = run ds (snd (Apply d s))"

fun results :: "LogData list \<Rightarrow> Store \<Rightarrow> error option list" where
  "results [] s = []"
| "results (d # ds) s = fst (Apply d s) # results ds (snd (Apply d s))"

section \<open>Snapshot, Persist, Restore\<close>









section \<open>Read accessors\<close>




definition GetPrinters :: "Store \<Rightarrow> nat set" where
  "GetPrinters s = ran (printers s)"



section \<open>Contents of a store\<close>

text \<open>
  The contents of a map of pointers: each key with the record its pointer leads to. This
  is what the claims call the printers, filaments and print jobs of a store.
\<close>

definition deref :: "'a list \<Rightarrow> (string \<rightharpoonup> nat) \<Rightarrow> (string \<rightharpoonup> 'a)" where
  "deref cells m = (\<lambda>k. map_option (\<lambda>p. cells ! p) (m k))"

definition printerOf :: "Store \<Rightarrow> string \<rightharpoonup> Printer" where
  "printerOf s = deref (printerCells s) (printers s)"

definition filamentOf :: "Store \<Rightarrow> string \<rightharpoonup> Filament" where
  "filamentOf s = deref (filamentCells s) (filaments s)"

definition printJobOf :: "Store \<Rightarrow> string \<rightharpoonup> PrintJob" where
  "printJobOf s = deref (printJobCells s) (printJobs s)"

definition contents :: "Store \<Rightarrow> (string \<rightharpoonup> Printer) \<times> (string \<rightharpoonup> Filament) \<times> (string \<rightharpoonup> PrintJob)" where
  "contents s = (printerOf s, filamentOf s, printJobOf s)"

text \<open>
  Pointers of a Go program are never dangling, and the FSM never stores one pointer under
  two keys. \<open>wf\<close> says so for a store of the model; it holds of \<open>NewStore\<close> and \<open>Apply\<close>
  keeps it.
\<close>

definition wf_ptrs :: "'a list \<Rightarrow> (string \<rightharpoonup> nat) \<Rightarrow> bool" where
  "wf_ptrs cells m \<longleftrightarrow> (\<forall>k p. m k = Some p \<longrightarrow> p < length cells) \<and> inj_on m (dom m)"

definition wf :: "Store \<Rightarrow> bool" where
  "wf s \<longleftrightarrow>
     wf_ptrs (printerCells s) (printers s) \<and>
     wf_ptrs (filamentCells s) (filaments s) \<and>
     wf_ptrs (printJobCells s) (printJobs s)"

section \<open>Example commands\<close>

text \<open>Payloads as the request layer encodes them: each decodes at its own type only.\<close>

definition noPayload :: RawMessage where
  "noPayload = \<lparr>asPrinter = None, asFilament = None, asPrintJob = None, asStatusChange = None, asID = None\<rparr>"

definition command :: "string \<Rightarrow> string \<Rightarrow> RawMessage \<Rightarrow> LogData" where
  "command op entity payload = Some \<lparr>Op = op, EntityType = entity, Payload = payload\<rparr>"

definition printerP1 :: Printer where
  "printerP1 = \<lparr>Printer.ID = ''p1'', Company = ''Prusa'', Model = ''MK4''\<rparr>"

definition filamentF1 :: Filament where
  "filamentF1 = \<lparr>Filament.ID = ''f1'', Type = ''PLA'', Color = ''Red'',
                  TotalWeightInGrams = 1000, RemainingWeightInGrams = 1000\<rparr>"

definition jobJ1 :: PrintJob where
  "jobJ1 = \<lparr>PrintJob.ID = ''j1'', PrinterID = ''p1'', FilamentID = ''f1'', Filepath = ''benchy.gcode'',
             PrintWeightInGrams = 400, Status = []\<rparr>"

definition createPrinter :: "Printer \<Rightarrow> LogData" where
  "createPrinter p = command OpCreate EntityPrinter (noPayload\<lparr>asPrinter := Some p\<rparr>)"

definition createFilament :: "Filament \<Rightarrow> LogData" where
  "createFilament f = command OpCreate EntityFilament (noPayload\<lparr>asFilament := Some f\<rparr>)"

definition createPrintJob :: "PrintJob \<Rightarrow> LogData" where
  "createPrintJob j = command OpCreate EntityPrintJob (noPayload\<lparr>asPrintJob := Some j\<rparr>)"

definition updatePrintJob :: "string \<Rightarrow> string \<Rightarrow> LogData" where
  "updatePrintJob k st =
     command OpUpdate EntityPrintJob
       (noPayload\<lparr>asStatusChange := Some \<lparr>PrintJobStatusChange.ID = k, Status = st\<rparr>\<rparr>)"

definition updateFilament :: "Filament \<Rightarrow> LogData" where
  "updateFilament f = command OpUpdate EntityFilament (noPayload\<lparr>asFilament := Some f\<rparr>)"

definition deleteEntity :: "string \<Rightarrow> string \<Rightarrow> LogData" where
  "deleteEntity entity k = command OpDelete entity (noPayload\<lparr>asID := Some k\<rparr>)"

text \<open>The example of the specification, up to the job running.\<close>

definition exampleLog :: "LogData list" where
  "exampleLog = [createPrinter printerP1, createFilament filamentF1, createPrintJob jobJ1,
                 updatePrintJob ''j1'' StatusRunning]"

text \<open>
  A job of 100 g accepted against 1000 g; the filament is then updated to 50 g remaining
  and the job starts.
\<close>

definition overdrawLog :: "LogData list" where
  "overdrawLog = [createPrinter printerP1, createFilament filamentF1,
                  createPrintJob (jobJ1\<lparr>PrintWeightInGrams := 100\<rparr>),
                  updateFilament (filamentF1\<lparr>RemainingWeightInGrams := 50\<rparr>),
                  updatePrintJob ''j1'' StatusRunning]"

section \<open>Apply on contents\<close>

text \<open>
  A proof device, not part of the program: what \<open>Apply\<close> does to the contents of a store,
  written on the contents alone. \<open>Apply_contents\<close> below shows that \<open>Apply\<close> follows it on
  every well-formed store; the claims are stated on \<open>Apply\<close>.
\<close>

type_synonym Contents = "(string \<rightharpoonup> Printer) \<times> (string \<rightharpoonup> Filament) \<times> (string \<rightharpoonup> PrintJob)"

definition stepPrinter :: "Command \<Rightarrow> Contents \<Rightarrow> error option \<times> Contents" where
  "stepPrinter cmd c =
     (case c of (ps, fs, js) \<Rightarrow>
      if Op cmd = OpCreate then
        (case asPrinter (Payload cmd) of
           None \<Rightarrow> (Some FailedUnmarshalPrinter, c)
         | Some printer \<Rightarrow>
             (case Printer_Validate printer of
                Some err \<Rightarrow> (Some err, c)
              | None \<Rightarrow> (None, (ps(Printer.ID printer \<mapsto> printer), fs, js))))
      else if Op cmd = OpUpdate then
        (case asPrinter (Payload cmd) of
           None \<Rightarrow> (Some FailedUnmarshalPrinter, c)
         | Some printer \<Rightarrow>
             (case Printer_Validate printer of
                Some err \<Rightarrow> (Some err, c)
              | None \<Rightarrow>
                  (case ps (Printer.ID printer) of
                     None \<Rightarrow> (Some (PrinterNotFound (Printer.ID printer)), c)
                   | Some _ \<Rightarrow> (None, (ps(Printer.ID printer \<mapsto> printer), fs, js)))))
      else if Op cmd = OpDelete then
        (case asID (Payload cmd) of
           None \<Rightarrow> (Some FailedUnmarshalID, c)
         | Some id' \<Rightarrow>
             (case ps id' of
                None \<Rightarrow> (Some (PrinterNotFound id'), c)
              | Some _ \<Rightarrow> (None, (ps(id' := None), fs, js))))
      else (Some (UnknownPrinterOperation (Op cmd)), c))"

definition stepFilament :: "Command \<Rightarrow> Contents \<Rightarrow> error option \<times> Contents" where
  "stepFilament cmd c =
     (case c of (ps, fs, js) \<Rightarrow>
      if Op cmd = OpCreate then
        (case asFilament (Payload cmd) of
           None \<Rightarrow> (Some FailedUnmarshalFilament, c)
         | Some filament \<Rightarrow>
             (case Filament_Validate filament of
                Some err \<Rightarrow> (Some err, c)
              | None \<Rightarrow> (None, (ps, fs(Filament.ID filament \<mapsto> filament), js))))
      else if Op cmd = OpUpdate then
        (case asFilament (Payload cmd) of
           None \<Rightarrow> (Some FailedUnmarshalFilament, c)
         | Some filament \<Rightarrow>
             (case Filament_Validate filament of
                Some err \<Rightarrow> (Some err, c)
              | None \<Rightarrow>
                  (case fs (Filament.ID filament) of
                     None \<Rightarrow> (Some (FilamentNotFound (Filament.ID filament)), c)
                   | Some _ \<Rightarrow> (None, (ps, fs(Filament.ID filament \<mapsto> filament), js)))))
      else if Op cmd = OpDelete then
        (case asID (Payload cmd) of
           None \<Rightarrow> (Some FailedUnmarshalID, c)
         | Some id' \<Rightarrow>
             (case fs id' of
                None \<Rightarrow> (Some (FilamentNotFound id'), c)
              | Some _ \<Rightarrow> (None, (ps, fs(id' := None), js))))
      else (Some (UnknownFilamentOperation (Op cmd)), c))"

definition stepPrintJob :: "Command \<Rightarrow> Contents \<Rightarrow> error option \<times> Contents" where
  "stepPrintJob cmd c =
     (case c of (ps, fs, js) \<Rightarrow>
      if Op cmd = OpCreate then
        (case asPrintJob (Payload cmd) of
           None \<Rightarrow> (Some FailedUnmarshalPrintJob, c)
         | Some decoded \<Rightarrow>
             (let printJob = decoded\<lparr>PrintJob.Status := StatusQueued\<rparr> in
              case PrintJob_Validate printJob of
                Some err \<Rightarrow> (Some err, c)
              | None \<Rightarrow>
                  (case ps (PrinterID printJob) of
                     None \<Rightarrow> (Some (PrinterNotFound (PrinterID printJob)), c)
                   | Some _ \<Rightarrow>
                       (case fs (FilamentID printJob) of
                          None \<Rightarrow> (Some (FilamentNotFound (FilamentID printJob)), c)
                        | Some filament \<Rightarrow>
                            if RemainingWeightInGrams filament <s PrintWeightInGrams printJob then
                              (Some (InsufficientFilament (PrintWeightInGrams printJob)
                                       (RemainingWeightInGrams filament)), c)
                            else (None, (ps, fs, js(PrintJob.ID printJob \<mapsto> printJob)))))))
      else if Op cmd = OpUpdate then
        (case asStatusChange (Payload cmd) of
           None \<Rightarrow> (Some FailedUnmarshalStatusChange, c)
         | Some statusChange \<Rightarrow>
             (case js (PrintJobStatusChange.ID statusChange) of
                None \<Rightarrow> (Some (PrintJobNotFound (PrintJobStatusChange.ID statusChange)), c)
              | Some printJob \<Rightarrow>
                  (case ValidateTransition printJob (PrintJobStatusChange.Status statusChange) of
                     Some err \<Rightarrow> (Some err, c)
                   | None \<Rightarrow>
                       if PrintJobStatusChange.Status statusChange = StatusDone then
                         (case fs (FilamentID printJob) of
                            None \<Rightarrow> (Some (FilamentNotFound (FilamentID printJob)), c)
                          | Some filament \<Rightarrow>
                              (None,
                               (ps,
                                fs(FilamentID printJob \<mapsto> filament\<lparr>RemainingWeightInGrams :=
                                     deduct (RemainingWeightInGrams filament) (PrintWeightInGrams printJob)\<rparr>),
                                js(PrintJobStatusChange.ID statusChange \<mapsto>
                                     printJob\<lparr>PrintJob.Status := PrintJobStatusChange.Status statusChange\<rparr>))))
                       else
                         (None,
                          (ps, fs,
                           js(PrintJobStatusChange.ID statusChange \<mapsto>
                                printJob\<lparr>PrintJob.Status := PrintJobStatusChange.Status statusChange\<rparr>)))))) 
      else if Op cmd = OpDelete then
        (case asID (Payload cmd) of
           None \<Rightarrow> (Some FailedUnmarshalID, c)
         | Some id' \<Rightarrow>
             (case js id' of
                None \<Rightarrow> (Some (PrintJobNotFound id'), c)
              | Some _ \<Rightarrow> (None, (ps, fs, js(id' := None)))))
      else (Some (UnknownPrintJobOperation (Op cmd)), c))"

definition step :: "LogData \<Rightarrow> Contents \<Rightarrow> error option \<times> Contents" where
  "step data c =
     (case data of
        None \<Rightarrow> (Some FailedUnmarshalCommand, c)
      | Some cmd \<Rightarrow>
          if EntityType cmd = EntityPrinter then stepPrinter cmd c
          else if EntityType cmd = EntityFilament then stepFilament cmd c
          else if EntityType cmd = EntityPrintJob then stepPrintJob cmd c
          else (Some (UnknownEntityType (EntityType cmd)), c))"

section \<open>Notions used in the statements\<close>

text \<open>The four status changes that \<open>validTransitions\<close> lists, as pairs (current, requested).\<close>

definition allowed :: "(string \<times> string) set" where
  "allowed = {(StatusQueued, StatusRunning), (StatusQueued, StatusCancelled),
              (StatusRunning, StatusDone), (StatusRunning, StatusCancelled)}"

text \<open>The weight range of a filament record, read as signed integers.\<close>

definition weights_ok :: "Filament \<Rightarrow> bool" where
  "weights_ok f \<longleftrightarrow>
     0 \<le> sint (RemainingWeightInGrams f) \<and>
     sint (RemainingWeightInGrams f) \<le> sint (TotalWeightInGrams f) \<and>
     0 < sint (TotalWeightInGrams f)"

text \<open>
  The invariant behind the weight claims: every filament of the contents is in range and
  every job has a positive print weight.
\<close>

definition sound :: "Contents \<Rightarrow> bool" where
  "sound c \<longleftrightarrow>
     (case c of (ps, fs, js) \<Rightarrow>
        (\<forall>k f. fs k = Some f \<longrightarrow> weights_ok f) \<and>
        (\<forall>k j. js k = Some j \<longrightarrow> 0 < sint (PrintWeightInGrams j)))"




section \<open>Basic facts\<close>

lemmas Status_defs = StatusQueued_def StatusRunning_def StatusDone_def StatusCancelled_def

lemmas Entity_defs = EntityPrinter_def EntityFilament_def EntityPrintJob_def

lemmas Op_defs = OpCreate_def OpUpdate_def OpDelete_def

lemmas eval_defs = Apply_def applyPrinterCommand_def applyFilamentCommand_def applyPrintJobCommand_def
  Printer_Validate_def Filament_Validate_def PrintJob_Validate_def ValidateTransition_def
  validTypes_def validStatuses_def validTransitions_def deduct_def Let_def
  StatusQueued_def StatusRunning_def StatusDone_def StatusCancelled_def
  EntityPrinter_def EntityFilament_def EntityPrintJob_def OpCreate_def OpUpdate_def OpDelete_def
  NewStore_def noPayload_def command_def printerP1_def filamentF1_def jobJ1_def
  createPrinter_def createFilament_def createPrintJob_def updatePrintJob_def deleteEntity_def
  updateFilament_def
  word_sless_alt word_sle_eq

lemma applyPrinterCommand_error: "applyPrinterCommand cmd s = (Some e, s') \<Longrightarrow> s' = s"
  by (auto simp: applyPrinterCommand_def split: if_splits option.splits)

lemma applyFilamentCommand_error: "applyFilamentCommand cmd s = (Some e, s') \<Longrightarrow> s' = s"
  by (auto simp: applyFilamentCommand_def split: if_splits option.splits)

lemma applyPrintJobCommand_error: "applyPrintJobCommand cmd s = (Some e, s') \<Longrightarrow> s' = s"
  by (auto simp: applyPrintJobCommand_def Let_def split: if_splits option.splits)

lemma deref_delete: "deref cells (m(k := None)) = (deref cells m)(k := None)"
  by (auto simp: deref_def fun_eq_iff)

lemma wf_ptrs_inj: "wf_ptrs cells m \<Longrightarrow> m a = Some p \<Longrightarrow> m b = Some p \<Longrightarrow> a = b"
  unfolding wf_ptrs_def inj_on_def by (metis domI)

lemma wf_ptrs_bound: "wf_ptrs cells m \<Longrightarrow> m a = Some p \<Longrightarrow> p < length cells"
  by (simp add: wf_ptrs_def)

lemma deref_write:
  assumes "wf_ptrs cells m" and "m k = Some p"
  shows "deref (cells[p := x]) m = (deref cells m)(k \<mapsto> x)"
proof (rule ext)
  fix k'
  show "deref (cells[p := x]) m k' = ((deref cells m)(k \<mapsto> x)) k'"
  proof (cases "m k'")
    case None
    with assms show ?thesis by (auto simp: deref_def)
  next
    case (Some q)
    show ?thesis
    proof (cases "k' = k")
      case True
      with assms wf_ptrs_bound [OF assms] show ?thesis by (simp add: deref_def)
    next
      case False
      with Some assms wf_ptrs_inj [OF assms(1) Some, of k] have "q \<noteq> p" by auto
      with False Some show ?thesis by (simp add: deref_def)
    qed
  qed
qed

lemma deref_grow:
  assumes "wf_ptrs cells m"
  shows "deref (cells @ [x]) m = deref cells m"
proof (rule ext)
  fix k
  show "deref (cells @ [x]) m k = deref cells m k"
  proof (cases "m k")
    case None
    then show ?thesis by (simp add: deref_def)
  next
    case (Some p)
    with assms have "p < length cells" by (simp add: wf_ptrs_def)
    with Some show ?thesis by (simp add: deref_def nth_append)
  qed
qed

lemma deref_alloc:
  assumes "wf_ptrs cells m"
  shows "deref (cells @ [x]) (m(k \<mapsto> length cells)) = (deref cells m)(k \<mapsto> x)"
proof (rule ext)
  fix k'
  have "deref (cells @ [x]) m k' = deref cells m k'"
    using deref_grow [OF assms] by simp
  then show "deref (cells @ [x]) (m(k \<mapsto> length cells)) k' = ((deref cells m)(k \<mapsto> x)) k'"
    by (simp add: deref_def)
qed

lemma wf_ptrs_alloc:
  assumes w: "wf_ptrs cells m"
  shows "wf_ptrs (cells @ [x]) (m(k \<mapsto> length cells))"
proof -
  have fresh: "m k' \<noteq> Some (length cells)" for k'
    using wf_ptrs_bound [OF w, of k' "length cells"] by auto
  show ?thesis
    unfolding wf_ptrs_def
  proof (intro conjI allI impI)
    fix k' p assume "(m(k \<mapsto> length cells)) k' = Some p"
    then show "p < length (cells @ [x])"
      using wf_ptrs_bound [OF w, of k' p] by (cases "k' = k") auto
  next
    show "inj_on (m(k \<mapsto> length cells)) (dom (m(k \<mapsto> length cells)))"
    proof (rule inj_onI)
      fix a b
      assume da: "a \<in> dom (m(k \<mapsto> length cells))"
        and eq: "(m(k \<mapsto> length cells)) a = (m(k \<mapsto> length cells)) b"
      from da obtain p where pa: "(m(k \<mapsto> length cells)) a = Some p" by blast
      with eq have pb: "(m(k \<mapsto> length cells)) b = Some p" by simp
      show "a = b"
      proof (cases "a = k")
        case True
        with pa have "p = length cells" by simp
        with pb fresh [of b] have "b = k" by (cases "b = k") auto
        with True show ?thesis by simp
      next
        case False
        with pa have ma: "m a = Some p" by simp
        with fresh [of a] have "p \<noteq> length cells" by auto
        with pb have "m b = Some p" by (cases "b = k") auto
        with ma show ?thesis by (rule wf_ptrs_inj [OF w])
      qed
    qed
  qed
qed

lemma wf_ptrs_delete:
  assumes w: "wf_ptrs cells m"
  shows "wf_ptrs cells (m(k := None))"
  unfolding wf_ptrs_def
proof (intro conjI allI impI)
  fix k' p assume "(m(k := None)) k' = Some p"
  then show "p < length cells"
    using wf_ptrs_bound [OF w, of k' p] by (cases "k' = k") auto
next
  show "inj_on (m(k := None)) (dom (m(k := None)))"
  proof (rule inj_onI)
    fix a b
    assume da: "a \<in> dom (m(k := None))"
      and eq: "(m(k := None)) a = (m(k := None)) b"
    from da obtain p where pa: "(m(k := None)) a = Some p" by blast
    with eq have pb: "(m(k := None)) b = Some p" by simp
    from pa have "m a = Some p" by (cases "a = k") auto
    moreover from pb have "m b = Some p" by (cases "b = k") auto
    ultimately show "a = b" by (rule wf_ptrs_inj [OF w])
  qed
qed

lemma wf_ptrs_write: "wf_ptrs cells m \<Longrightarrow> wf_ptrs (cells[p := x]) m"
  unfolding wf_ptrs_def by simp

lemma wf_ptrs_empty: "wf_ptrs cells Map.empty"
  by (simp add: wf_ptrs_def)

lemma wf_NewStore: "wf NewStore"
  by (simp add: wf_def NewStore_def wf_ptrs_empty)

lemma wf_applyPrinterCommand: "wf s \<Longrightarrow> wf (snd (applyPrinterCommand cmd s))"
  by (simp add: applyPrinterCommand_def wf_def wf_ptrs_alloc wf_ptrs_delete split: option.splits)

lemma wf_applyFilamentCommand: "wf s \<Longrightarrow> wf (snd (applyFilamentCommand cmd s))"
  by (simp add: applyFilamentCommand_def wf_def wf_ptrs_alloc wf_ptrs_delete split: option.splits)

lemma wf_applyPrintJobCommand: "wf s \<Longrightarrow> wf (snd (applyPrintJobCommand cmd s))"
  by (simp add: applyPrintJobCommand_def Let_def wf_def wf_ptrs_alloc wf_ptrs_delete wf_ptrs_write
      split: option.splits)

lemma wf_Apply: "wf s \<Longrightarrow> wf (snd (Apply d s))"
  by (simp add: Apply_def wf_applyPrinterCommand wf_applyFilamentCommand wf_applyPrintJobCommand
      split: option.splits)

lemma wf_run: "wf s \<Longrightarrow> wf (run ds s)"
  by (induction ds arbitrary: s) (simp_all add: wf_Apply)

lemma printerOf_create:
  "wf s \<Longrightarrow>
   printerOf (s\<lparr>printers := (printers s)(k \<mapsto> length (printerCells s)),
                 printerCells := printerCells s @ [p]\<rparr>) = (printerOf s)(k \<mapsto> p)"
  by (simp add: printerOf_def wf_def deref_alloc)

lemma filamentOf_create:
  "wf s \<Longrightarrow>
   filamentOf (s\<lparr>filaments := (filaments s)(k \<mapsto> length (filamentCells s)),
                 filamentCells := filamentCells s @ [f]\<rparr>) = (filamentOf s)(k \<mapsto> f)"
  by (simp add: filamentOf_def wf_def deref_alloc)

lemma Of_None [simp]:
  "printerOf s k = None \<longleftrightarrow> printers s k = None"
  "filamentOf s k = None \<longleftrightarrow> filaments s k = None"
  "printJobOf s k = None \<longleftrightarrow> printJobs s k = None"
  by (simp_all add: printerOf_def filamentOf_def printJobOf_def deref_def)

lemma case_deref:
  "(case deref cells m k of None \<Rightarrow> a | Some v \<Rightarrow> F v) =
   (case m k of None \<Rightarrow> a | Some p \<Rightarrow> F (cells ! p))"
  by (simp add: deref_def split: option.split)

lemmas Of_defs = contents_def printerOf_def filamentOf_def printJobOf_def

lemma applyPrinterCommand_contents:
  assumes "wf s"
  shows "fst (applyPrinterCommand cmd s) = fst (stepPrinter cmd (contents s)) \<and>
         contents (snd (applyPrinterCommand cmd s)) = snd (stepPrinter cmd (contents s))"
proof -
  from assms have w: "wf_ptrs (printerCells s) (printers s)" by (simp add: wf_def)
  consider (create) "Op cmd = OpCreate" | (update) "Op cmd \<noteq> OpCreate" "Op cmd = OpUpdate"
    | (delete) "Op cmd \<noteq> OpCreate" "Op cmd \<noteq> OpUpdate" "Op cmd = OpDelete"
    | (other) "Op cmd \<noteq> OpCreate" "Op cmd \<noteq> OpUpdate" "Op cmd \<noteq> OpDelete"
    by blast
  then show ?thesis
  proof cases
    case create
    then show ?thesis
      by (simp add: applyPrinterCommand_def stepPrinter_def Of_defs case_deref deref_alloc [OF w]
          split: option.split)
  next
    case update
    then show ?thesis
      by (simp add: applyPrinterCommand_def stepPrinter_def Of_defs case_deref deref_alloc [OF w]
          split: option.split)
  next
    case delete
    then show ?thesis
      by (simp add: applyPrinterCommand_def stepPrinter_def Of_defs case_deref deref_delete
          split: option.split)
  next
    case other
    then show ?thesis
      by (simp add: applyPrinterCommand_def stepPrinter_def)
  qed
qed

lemma applyFilamentCommand_contents:
  assumes "wf s"
  shows "fst (applyFilamentCommand cmd s) = fst (stepFilament cmd (contents s)) \<and>
         contents (snd (applyFilamentCommand cmd s)) = snd (stepFilament cmd (contents s))"
proof -
  from assms have w: "wf_ptrs (filamentCells s) (filaments s)" by (simp add: wf_def)
  consider (create) "Op cmd = OpCreate" | (update) "Op cmd \<noteq> OpCreate" "Op cmd = OpUpdate"
    | (delete) "Op cmd \<noteq> OpCreate" "Op cmd \<noteq> OpUpdate" "Op cmd = OpDelete"
    | (other) "Op cmd \<noteq> OpCreate" "Op cmd \<noteq> OpUpdate" "Op cmd \<noteq> OpDelete"
    by blast
  then show ?thesis
  proof cases
    case create
    then show ?thesis
      by (simp add: applyFilamentCommand_def stepFilament_def Of_defs case_deref deref_alloc [OF w]
          split: option.split)
  next
    case update
    then show ?thesis
      by (simp add: applyFilamentCommand_def stepFilament_def Of_defs case_deref deref_alloc [OF w]
          split: option.split)
  next
    case delete
    then show ?thesis
      by (simp add: applyFilamentCommand_def stepFilament_def Of_defs case_deref deref_delete
          split: option.split)
  next
    case other
    then show ?thesis
      by (simp add: applyFilamentCommand_def stepFilament_def)
  qed
qed

lemma applyPrintJobCommand_contents:
  assumes "wf s"
  shows "fst (applyPrintJobCommand cmd s) = fst (stepPrintJob cmd (contents s)) \<and>
         contents (snd (applyPrintJobCommand cmd s)) = snd (stepPrintJob cmd (contents s))"
proof -
  from assms have wj: "wf_ptrs (printJobCells s) (printJobs s)"
    and wf': "wf_ptrs (filamentCells s) (filaments s)" by (simp_all add: wf_def)
  consider (create) "Op cmd = OpCreate" | (update) "Op cmd \<noteq> OpCreate" "Op cmd = OpUpdate"
    | (delete) "Op cmd \<noteq> OpCreate" "Op cmd \<noteq> OpUpdate" "Op cmd = OpDelete"
    | (other) "Op cmd \<noteq> OpCreate" "Op cmd \<noteq> OpUpdate" "Op cmd \<noteq> OpDelete"
    by blast
  then show ?thesis
  proof cases
    case create
    then show ?thesis
      by (simp add: applyPrintJobCommand_def stepPrintJob_def Of_defs case_deref deref_alloc [OF wj]
          Let_def split: option.split)
  next
    case update
    then show ?thesis
      by (simp add: applyPrintJobCommand_def stepPrintJob_def Of_defs case_deref
          deref_write [OF wj] deref_write [OF wf'] Let_def split: option.split)
  next
    case delete
    then show ?thesis
      by (simp add: applyPrintJobCommand_def stepPrintJob_def Of_defs case_deref deref_delete
          split: option.split)
  next
    case other
    then show ?thesis
      by (simp add: applyPrintJobCommand_def stepPrintJob_def)
  qed
qed

lemma Apply_contents:
  assumes "wf s"
  shows "fst (Apply d s) = fst (step d (contents s)) \<and>
         contents (snd (Apply d s)) = snd (step d (contents s))"
  using applyPrinterCommand_contents [OF assms] applyFilamentCommand_contents [OF assms]
    applyPrintJobCommand_contents [OF assms]
  by (simp add: Apply_def step_def split: option.split)

lemma Apply_fails_same: "fst (Apply d s) = Some e \<Longrightarrow> snd (Apply d s) = s"
proof -
  assume a: "fst (Apply d s) = Some e"
  have sub: "fst (applyPrinterCommand c s) = Some e \<Longrightarrow> snd (applyPrinterCommand c s) = s"
    "fst (applyFilamentCommand c s) = Some e \<Longrightarrow> snd (applyFilamentCommand c s) = s"
    "fst (applyPrintJobCommand c s) = Some e \<Longrightarrow> snd (applyPrintJobCommand c s) = s" for c
    using applyPrinterCommand_error [of c s e "snd (applyPrinterCommand c s)"]
      applyFilamentCommand_error [of c s e "snd (applyFilamentCommand c s)"]
      applyPrintJobCommand_error [of c s e "snd (applyPrintJobCommand c s)"]
    by (simp_all add: prod_eq_iff)
  show ?thesis
  proof (cases d)
    case None
    then show ?thesis by (simp add: Apply_def)
  next
    case (Some c)
    with a sub [of c] show ?thesis
      by (simp add: Apply_def Entity_defs split: if_splits)
  qed
qed

lemma ValidateTransition_allowed:
  "ValidateTransition j new =
     (if (PrintJob.Status j, new) \<in> allowed then None
      else Some (InvalidTransition (PrintJob.Status j) new))"
  by (simp add: ValidateTransition_def validTransitions_def allowed_def Status_defs)

lemma step_update_invalid:
  assumes "EntityType cmd = EntityPrintJob" "Op cmd = OpUpdate"
    and "asStatusChange (Payload cmd) = Some \<lparr>PrintJobStatusChange.ID = k, Status = new\<rparr>"
    and "js k = Some j" and "(PrintJob.Status j, new) \<notin> allowed"
  shows "step (Some cmd) (ps, fs, js) = (Some (InvalidTransition (PrintJob.Status j) new), (ps, fs, js))"
  using assms
  by (simp add: step_def stepPrintJob_def ValidateTransition_allowed Entity_defs Op_defs)

lemma step_update_no_filament:
  assumes "EntityType cmd = EntityPrintJob" "Op cmd = OpUpdate"
    and "asStatusChange (Payload cmd) = Some \<lparr>PrintJobStatusChange.ID = k, Status = StatusDone\<rparr>"
    and "js k = Some j" and "(PrintJob.Status j, StatusDone) \<in> allowed"
    and "fs (FilamentID j) = None"
  shows "step (Some cmd) (ps, fs, js) = (Some (FilamentNotFound (FilamentID j)), (ps, fs, js))"
  using assms
  by (simp add: step_def stepPrintJob_def ValidateTransition_allowed Entity_defs Op_defs)

lemma step_update_done:
  assumes "EntityType cmd = EntityPrintJob" "Op cmd = OpUpdate"
    and "asStatusChange (Payload cmd) = Some \<lparr>PrintJobStatusChange.ID = k, Status = StatusDone\<rparr>"
    and "js k = Some j" and "(PrintJob.Status j, StatusDone) \<in> allowed"
    and "fs (FilamentID j) = Some f"
  shows "step (Some cmd) (ps, fs, js) =
    (None, (ps, fs(FilamentID j \<mapsto> f\<lparr>RemainingWeightInGrams :=
                           deduct (RemainingWeightInGrams f) (PrintWeightInGrams j)\<rparr>),
            js(k \<mapsto> j\<lparr>PrintJob.Status := StatusDone\<rparr>)))"
  using assms
  by (simp add: step_def stepPrintJob_def ValidateTransition_allowed Entity_defs Op_defs)

lemma step_update_other:
  assumes "EntityType cmd = EntityPrintJob" "Op cmd = OpUpdate"
    and "asStatusChange (Payload cmd) = Some \<lparr>PrintJobStatusChange.ID = k, Status = new\<rparr>"
    and "js k = Some j" and "(PrintJob.Status j, new) \<in> allowed"
    and "new \<noteq> StatusDone"
  shows "step (Some cmd) (ps, fs, js) = (None, (ps, fs, js(k \<mapsto> j\<lparr>PrintJob.Status := new\<rparr>)))"
  using assms
  by (simp add: step_def stepPrintJob_def ValidateTransition_allowed Entity_defs Op_defs)

lemma Apply_step_fst: "wf s \<Longrightarrow> fst (Apply d s) = fst (step d (printerOf s, filamentOf s, printJobOf s))"
  using Apply_contents [of s d] by (simp add: contents_def)

lemma Apply_step_snd:
  "wf s \<Longrightarrow> step d (printerOf s, filamentOf s, printJobOf s) = (r, ps, fs, js) \<Longrightarrow>
   printerOf (snd (Apply d s)) = ps \<and> filamentOf (snd (Apply d s)) = fs \<and>
   printJobOf (snd (Apply d s)) = js"
  using Apply_contents [of s d] by (simp add: contents_def)

lemma Apply_step_error:
  "wf s \<Longrightarrow> step d (printerOf s, filamentOf s, printJobOf s) = (Some e, c) \<Longrightarrow>
   Apply d s = (Some e, s)"
  using Apply_step_fst [of s d] Apply_fails_same [of d s e] by (simp add: prod_eq_iff)

lemma step_create_job:
  assumes "EntityType cmd = EntityPrintJob" "Op cmd = OpCreate"
    and "asPrintJob (Payload cmd) = Some j0"
  shows "step (Some cmd) (ps, fs, js) =
    (case PrintJob_Validate (j0\<lparr>PrintJob.Status := StatusQueued\<rparr>) of
       Some err \<Rightarrow> (Some err, (ps, fs, js))
     | None \<Rightarrow>
        (case ps (PrinterID j0) of
           None \<Rightarrow> (Some (PrinterNotFound (PrinterID j0)), (ps, fs, js))
         | Some _ \<Rightarrow>
            (case fs (FilamentID j0) of
               None \<Rightarrow> (Some (FilamentNotFound (FilamentID j0)), (ps, fs, js))
             | Some f \<Rightarrow>
                 if sint (RemainingWeightInGrams f) < sint (PrintWeightInGrams j0) then
                   (Some (InsufficientFilament (PrintWeightInGrams j0) (RemainingWeightInGrams f)), (ps, fs, js))
                 else (None, (ps, fs, js(PrintJob.ID j0 \<mapsto> j0\<lparr>PrintJob.Status := StatusQueued\<rparr>))))))"
  using assms
  by (simp add: step_def stepPrintJob_def Entity_defs Op_defs Let_def word_sless_alt
      split: option.split)

lemma example_run:
  "printJobOf (run exampleLog NewStore) ''j1'' = Some (jobJ1\<lparr>PrintJob.Status := StatusRunning\<rparr>)"
  "filamentOf (run exampleLog NewStore) ''f1'' = Some filamentF1"
  "printerOf (run exampleLog NewStore) ''p1'' = Some printerP1"
  by (simp_all add: eval_defs exampleLog_def Of_defs deref_def)

lemma sint_deduct:
  assumes "0 \<le> sint r" and "0 < sint w"
  shows "sint (deduct r w) = max 0 (sint r - sint w)"
proof -
  have "sint r < 2 ^ 63" "sint w < 2 ^ 63"
    using sint_lt [of r] sint_lt [of w] by simp_all
  with assms have "- (2 ^ 63) \<le> sint r - sint w" "sint r - sint w < 2 ^ 63"
    by simp_all
  then have "sint (r - w) = sint r - sint w"
    by (simp add: sint_word_diff signed_take_bit_int_eq_self)
  then show ?thesis
    by (simp add: deduct_def Let_def word_sless_alt)
qed

lemma Filament_Validate_ok: "Filament_Validate f = None \<Longrightarrow> weights_ok f"
  by (simp add: Filament_Validate_def weights_ok_def word_sless_alt word_sle_eq split: if_splits)

lemma PrintJob_Validate_ok: "PrintJob_Validate j = None \<Longrightarrow> 0 < sint (PrintWeightInGrams j)"
  by (simp add: PrintJob_Validate_def word_sle_eq split: if_splits)

lemma weights_ok_deduct:
  assumes "weights_ok f" and "0 < sint w"
  shows "weights_ok (f\<lparr>RemainingWeightInGrams := deduct (RemainingWeightInGrams f) w\<rparr>)"
proof -
  from assms have "sint (deduct (RemainingWeightInGrams f) w) = max 0 (sint (RemainingWeightInGrams f) - sint w)"
    by (intro sint_deduct) (simp_all add: weights_ok_def)
  with assms show ?thesis by (simp add: weights_ok_def)
qed

lemma sound_stepPrinter: "sound c \<Longrightarrow> sound (snd (stepPrinter cmd c))"
  by (cases c) (simp add: stepPrinter_def sound_def split: option.split)

lemma sound_stepFilament: "sound c \<Longrightarrow> sound (snd (stepFilament cmd c))"
  by (cases c) (auto simp: stepFilament_def sound_def Filament_Validate_ok split: option.split if_splits)

lemma sound_stepPrintJob:
  assumes "sound c"
  shows "sound (snd (stepPrintJob cmd c))"
proof -
  obtain ps fs js where c: "c = (ps, fs, js)" by (cases c)
  from assms c have f: "\<And>k f. fs k = Some f \<Longrightarrow> weights_ok f"
    and j: "\<And>k j. js k = Some j \<Longrightarrow> 0 < sint (PrintWeightInGrams j)"
    by (simp_all add: sound_def)
  consider (create) "Op cmd = OpCreate" | (update) "Op cmd \<noteq> OpCreate" "Op cmd = OpUpdate"
    | (delete) "Op cmd \<noteq> OpCreate" "Op cmd \<noteq> OpUpdate" "Op cmd = OpDelete"
    | (other) "Op cmd \<noteq> OpCreate" "Op cmd \<noteq> OpUpdate" "Op cmd \<noteq> OpDelete"
    by blast
  then show ?thesis
  proof cases
    case create
    with assms c show ?thesis
      by (auto simp: stepPrintJob_def sound_def Let_def dest: PrintJob_Validate_ok
          split: option.split if_splits)
  next
    case update
    with assms c show ?thesis
      by (auto simp: stepPrintJob_def sound_def weights_ok_deduct f j
          split: option.split if_splits)
  next
    case delete
    with assms c show ?thesis
      by (auto simp: stepPrintJob_def sound_def split: option.split if_splits)
  next
    case other
    with assms c show ?thesis by (simp add: stepPrintJob_def)
  qed
qed

lemma sound_step: "sound c \<Longrightarrow> sound (snd (step d c))"
  by (simp add: step_def sound_stepPrinter sound_stepFilament sound_stepPrintJob split: option.split)

lemma sound_Apply: "wf s \<Longrightarrow> sound (contents s) \<Longrightarrow> sound (contents (snd (Apply d s)))"
  using Apply_contents [of s d] sound_step [of "contents s" d] by simp

lemma sound_run: "wf s \<Longrightarrow> sound (contents s) \<Longrightarrow> sound (contents (run ds s))"
  by (induction ds arbitrary: s) (simp_all add: sound_Apply wf_Apply)

lemma sound_NewStore: "sound (contents NewStore)"
  by (simp add: sound_def Of_defs NewStore_def deref_def)













section \<open>Claims\<close>

text \<open>
  C1. \<open>Apply\<close> is a function of the contents of the store and of the command, and of
  nothing else: two well-formed stores with the same contents (whatever their pointers and
  whatever else their memory holds), given the same log, return the same results entry by
  entry and end with the same printers, filaments and print jobs. Two fresh stores are
  such a pair.
\<close>

theorem same_log_same_contents:
  "wf s1 \<Longrightarrow> wf s2 \<Longrightarrow> contents s1 = contents s2 \<Longrightarrow>
   results ds s1 = results ds s2 \<and> contents (run ds s1) = contents (run ds s2)"
proof (induction ds arbitrary: s1 s2)
  case Nil
  then show ?case by simp
next
  case (Cons d ds)
  from Cons.prems have r: "fst (Apply d s1) = fst (Apply d s2)"
    and c: "contents (snd (Apply d s1)) = contents (snd (Apply d s2))"
    using Apply_contents [of s1 d] Apply_contents [of s2 d] by simp_all
  from Cons.prems have w: "wf (snd (Apply d s1))" "wf (snd (Apply d s2))"
    by (simp_all add: wf_Apply)
  from Cons.IH [OF w c] r show ?case by simp
qed

theorem same_log_same_contents_witness:
  "results [createPrinter printerP1, createFilament filamentF1, createPrintJob jobJ1,
            updatePrintJob ''j1'' StatusDone, updatePrintJob ''j1'' StatusRunning,
            updatePrintJob ''j1'' StatusDone] NewStore =
   results [createPrinter printerP1, createFilament filamentF1, createPrintJob jobJ1,
            updatePrintJob ''j1'' StatusDone, updatePrintJob ''j1'' StatusRunning,
            updatePrintJob ''j1'' StatusDone] (NewStore\<lparr>filamentCells := [filamentF1]\<rparr>) \<and>
   contents (run [createPrinter printerP1, createFilament filamentF1, createPrintJob jobJ1,
            updatePrintJob ''j1'' StatusDone, updatePrintJob ''j1'' StatusRunning,
            updatePrintJob ''j1'' StatusDone] NewStore) =
   contents (run [createPrinter printerP1, createFilament filamentF1, createPrintJob jobJ1,
            updatePrintJob ''j1'' StatusDone, updatePrintJob ''j1'' StatusRunning,
            updatePrintJob ''j1'' StatusDone] (NewStore\<lparr>filamentCells := [filamentF1]\<rparr>))"
proof -
  have w: "wf (NewStore\<lparr>filamentCells := [filamentF1]\<rparr>)"
    by (simp add: wf_def NewStore_def wf_ptrs_empty)
  have c: "contents NewStore = contents (NewStore\<lparr>filamentCells := [filamentF1]\<rparr>)"
    by (simp add: Of_defs NewStore_def deref_def)
  show ?thesis by (rule same_log_same_contents [OF wf_NewStore w c])
qed

text \<open>
  C2. Whenever \<open>Apply\<close> returns an error (decode, validation, not-found,
  insufficient-filament, invalid-transition, unknown type or operation), the store it leaves
  behind is the store it was given: maps and cells alike, nothing inserted, removed or
  modified.
\<close>

theorem Apply_error_leaves_store: "Apply d s = (Some e, s') \<Longrightarrow> s' = s"
proof (cases d)
  case None
  assume "Apply d s = (Some e, s')"
  with None show ?thesis by (simp add: Apply_def)
next
  case (Some cmd)
  assume a: "Apply d s = (Some e, s')"
  consider "EntityType cmd = EntityPrinter" | "EntityType cmd \<noteq> EntityPrinter" "EntityType cmd = EntityFilament"
    | "EntityType cmd \<noteq> EntityPrinter" "EntityType cmd \<noteq> EntityFilament" "EntityType cmd = EntityPrintJob"
    | "EntityType cmd \<noteq> EntityPrinter" "EntityType cmd \<noteq> EntityFilament" "EntityType cmd \<noteq> EntityPrintJob"
    by blast
  then show ?thesis
  proof cases
    case 1
    with a Some show ?thesis by (simp add: Apply_def applyPrinterCommand_error)
  next
    case 2
    with a Some show ?thesis by (simp add: Apply_def applyFilamentCommand_error)
  next
    case 3
    with a Some show ?thesis by (simp add: Apply_def applyPrintJobCommand_error)
  next
    case 4
    with a Some show ?thesis by (simp add: Apply_def)
  qed
qed

theorem Apply_error_leaves_store_witness:
  "Apply (createPrintJob (jobJ1\<lparr>PrintWeightInGrams := 2000\<rparr>))
     (run [createPrinter printerP1, createFilament filamentF1] NewStore) =
   (Some (InsufficientFilament 2000 1000),
    run [createPrinter printerP1, createFilament filamentF1] NewStore)"
proof -
  let ?s = "run [createPrinter printerP1, createFilament filamentF1] NewStore"
  let ?d = "createPrintJob (jobJ1\<lparr>PrintWeightInGrams := 2000\<rparr>)"
  have h: "Apply ?d ?s = (Some (InsufficientFilament 2000 1000), snd (Apply ?d ?s))"
    by (simp add: eval_defs)
  from Apply_error_leaves_store [OF h] h show ?thesis by simp
qed

text \<open>
  C3, as the code has it. On a well-formed store, a status change of an existing job
  succeeds, and sets the job's status, for the pairs Queued to Running, Queued to Cancelled
  and Running to Cancelled, and for Running to Done provided the job's filament is still in
  the store; Running to Done with the filament gone returns the filament-not-found error;
  every pair outside the four returns the invalid-transition error carrying both statuses.
  On either error the store, and so the job's status, is unchanged.
\<close>

theorem status_change:
  assumes "wf s"
    and "EntityType cmd = EntityPrintJob" and "Op cmd = OpUpdate"
    and "asStatusChange (Payload cmd) = Some \<lparr>PrintJobStatusChange.ID = k, Status = new\<rparr>"
    and "printJobOf s k = Some j"
  shows
    "((PrintJob.Status j, new) \<in> allowed \<and> (new = StatusDone \<longrightarrow> filamentOf s (FilamentID j) \<noteq> None) \<longrightarrow>
        fst (Apply (Some cmd) s) = None \<and>
        printJobOf (snd (Apply (Some cmd) s)) = (printJobOf s)(k \<mapsto> j\<lparr>PrintJob.Status := new\<rparr>)) \<and>
     ((PrintJob.Status j, new) \<in> allowed \<and> new = StatusDone \<and> filamentOf s (FilamentID j) = None \<longrightarrow>
        Apply (Some cmd) s = (Some (FilamentNotFound (FilamentID j)), s)) \<and>
     ((PrintJob.Status j, new) \<notin> allowed \<longrightarrow>
        Apply (Some cmd) s = (Some (InvalidTransition (PrintJob.Status j) new), s))"
proof -
  have 1: "fst (Apply (Some cmd) s) = None \<and>
        printJobOf (snd (Apply (Some cmd) s)) = (printJobOf s)(k \<mapsto> j\<lparr>PrintJob.Status := new\<rparr>)"
    if a: "(PrintJob.Status j, new) \<in> allowed \<and> (new = StatusDone \<longrightarrow> filamentOf s (FilamentID j) \<noteq> None)"
  proof (cases "new = StatusDone")
    case True
    with a have "filamentOf s (FilamentID j) \<noteq> None" by blast
    then obtain f where f: "filamentOf s (FilamentID j) = Some f" by blast
    from a True have al: "(PrintJob.Status j, StatusDone) \<in> allowed" by simp
    from assms(4) True have sc: "asStatusChange (Payload cmd) =
        Some \<lparr>PrintJobStatusChange.ID = k, Status = StatusDone\<rparr>" by simp
    note st = step_update_done [where ps = "printerOf s" and fs = "filamentOf s" and js = "printJobOf s", OF assms(2,3) sc assms(5) al f]
    from Apply_step_fst [OF assms(1), of "Some cmd"] Apply_step_snd [OF assms(1) st] st True
    show ?thesis by simp
  next
    case False
    from a have al: "(PrintJob.Status j, new) \<in> allowed" by simp
    note st = step_update_other [where ps = "printerOf s" and fs = "filamentOf s" and js = "printJobOf s", OF assms(2,3,4,5) al False]
    from Apply_step_fst [OF assms(1), of "Some cmd"] Apply_step_snd [OF assms(1) st] st
    show ?thesis by simp
  qed
  have 2: "Apply (Some cmd) s = (Some (FilamentNotFound (FilamentID j)), s)"
    if a: "(PrintJob.Status j, new) \<in> allowed \<and> new = StatusDone \<and> filamentOf s (FilamentID j) = None"
  proof -
    from a have al: "(PrintJob.Status j, StatusDone) \<in> allowed"
      and nf: "filamentOf s (FilamentID j) = None" by blast+
    from assms(4) a have sc: "asStatusChange (Payload cmd) =
        Some \<lparr>PrintJobStatusChange.ID = k, Status = StatusDone\<rparr>" by simp
    show ?thesis
      by (rule Apply_step_error [OF assms(1) step_update_no_filament [where ps = "printerOf s" and fs = "filamentOf s" and js = "printJobOf s", OF assms(2,3) sc assms(5) al nf]])
  qed
  have 3: "Apply (Some cmd) s = (Some (InvalidTransition (PrintJob.Status j) new), s)"
    if a: "(PrintJob.Status j, new) \<notin> allowed"
    by (rule Apply_step_error [OF assms(1) step_update_invalid [where ps = "printerOf s" and fs = "filamentOf s" and js = "printJobOf s", OF assms(2,3,4,5) a]])
  from 1 2 3 show ?thesis by blast
qed

theorem status_change_witness:
  "fst (Apply (updatePrintJob ''j1'' StatusDone) (run exampleLog NewStore)) = None \<and>
   printJobOf (snd (Apply (updatePrintJob ''j1'' StatusDone) (run exampleLog NewStore))) ''j1'' =
     Some (jobJ1\<lparr>PrintJob.Status := StatusDone\<rparr>) \<and>
   Apply (updatePrintJob ''j1'' StatusQueued) (run exampleLog NewStore) =
     (Some (InvalidTransition StatusRunning StatusQueued), run exampleLog NewStore)"
proof -
  let ?s = "run exampleLog NewStore"
  let ?j = "jobJ1\<lparr>PrintJob.Status := StatusRunning\<rparr>"
  have w: "wf ?s" by (rule wf_run [OF wf_NewStore])
  have al: "(PrintJob.Status ?j, StatusDone) \<in> allowed" "(PrintJob.Status ?j, StatusQueued) \<notin> allowed"
    by (simp_all add: allowed_def Status_defs)
  have f: "filamentOf ?s (FilamentID ?j) \<noteq> None"
    using example_run(2) by (simp add: jobJ1_def del: Of_None)
  have d: "fst (Apply (updatePrintJob ''j1'' StatusDone) ?s) = None \<and>
      printJobOf (snd (Apply (updatePrintJob ''j1'' StatusDone) ?s)) =
        (printJobOf ?s)(''j1'' \<mapsto> ?j\<lparr>PrintJob.Status := StatusDone\<rparr>)"
    using status_change [OF w _ _ _ example_run(1), of
        "\<lparr>Op = OpUpdate, EntityType = EntityPrintJob, Payload =
            noPayload\<lparr>asStatusChange := Some \<lparr>PrintJobStatusChange.ID = ''j1'', Status = StatusDone\<rparr>\<rparr>\<rparr>"
        StatusDone] al f
    by (simp add: updatePrintJob_def command_def del: Of_None)
  have q: "Apply (updatePrintJob ''j1'' StatusQueued) ?s =
      (Some (InvalidTransition (PrintJob.Status ?j) StatusQueued), ?s)"
    using status_change [OF w _ _ _ example_run(1), of
        "\<lparr>Op = OpUpdate, EntityType = EntityPrintJob, Payload =
            noPayload\<lparr>asStatusChange := Some \<lparr>PrintJobStatusChange.ID = ''j1'', Status = StatusQueued\<rparr>\<rparr>\<rparr>"
        StatusQueued] al
    by (simp add: updatePrintJob_def command_def)
  from d q show ?thesis by simp
qed

text \<open>
  C3 as stated fails where the filament of a running job has been deleted: the job exists,
  Running to Done is one of the four pairs, and the update is rejected.
\<close>

theorem status_change_counterexample:
  "printJobOf (run (exampleLog @ [deleteEntity EntityFilament ''f1'']) NewStore) ''j1'' =
     Some (jobJ1\<lparr>PrintJob.Status := StatusRunning\<rparr>) \<and>
   (StatusRunning, StatusDone) \<in> allowed \<and>
   Apply (updatePrintJob ''j1'' StatusDone) (run (exampleLog @ [deleteEntity EntityFilament ''f1'']) NewStore) =
     (Some (FilamentNotFound ''f1''), run (exampleLog @ [deleteEntity EntityFilament ''f1'']) NewStore)"
  by (simp add: eval_defs exampleLog_def printJobOf_def deref_def allowed_def)

text \<open>
  C4. On a well-formed store, creating a print job whose filament exists: if the print
  weight exceeds the filament's remaining weight the command is rejected and the store is
  left as it was (no job inserted, filament untouched), and once validation and the printer
  check have passed the error is the insufficient-filament error carrying the required and
  the available grams; if the weight is at most the remaining weight and the other checks
  pass, the job is inserted as Queued and printers and filaments are unchanged.
\<close>

theorem create_job_checks_filament:
  assumes "wf s"
    and "EntityType cmd = EntityPrintJob" and "Op cmd = OpCreate"
    and "asPrintJob (Payload cmd) = Some j0"
    and "filamentOf s (FilamentID j0) = Some f"
  shows
    "(sint (RemainingWeightInGrams f) < sint (PrintWeightInGrams j0) \<longrightarrow>
        fst (Apply (Some cmd) s) \<noteq> None \<and> snd (Apply (Some cmd) s) = s \<and>
        (PrintJob_Validate (j0\<lparr>PrintJob.Status := StatusQueued\<rparr>) = None \<and>
         printerOf s (PrinterID j0) \<noteq> None \<longrightarrow>
           fst (Apply (Some cmd) s) =
             Some (InsufficientFilament (PrintWeightInGrams j0) (RemainingWeightInGrams f)))) \<and>
     (sint (PrintWeightInGrams j0) \<le> sint (RemainingWeightInGrams f) \<and>
      PrintJob_Validate (j0\<lparr>PrintJob.Status := StatusQueued\<rparr>) = None \<and>
      printerOf s (PrinterID j0) \<noteq> None \<longrightarrow>
        fst (Apply (Some cmd) s) = None \<and>
        printJobOf (snd (Apply (Some cmd) s)) =
          (printJobOf s)(PrintJob.ID j0 \<mapsto> j0\<lparr>PrintJob.Status := StatusQueued\<rparr>) \<and>
        filamentOf (snd (Apply (Some cmd) s)) = filamentOf s \<and>
        printerOf (snd (Apply (Some cmd) s)) = printerOf s)"
proof -
  note st = step_create_job [where ps = "printerOf s" and fs = "filamentOf s" and js = "printJobOf s",
      OF assms(2,3,4)]
  obtain r ps fs js where eq: "step (Some cmd) (printerOf s, filamentOf s, printJobOf s) = (r, ps, fs, js)"
    by (metis prod_cases4)
  note fstA = Apply_step_fst [OF assms(1), of "Some cmd"]
  note sndA = Apply_step_snd [OF assms(1) eq]
  have 1: "fst (Apply (Some cmd) s) \<noteq> None \<and> snd (Apply (Some cmd) s) = s \<and>
        (PrintJob_Validate (j0\<lparr>PrintJob.Status := StatusQueued\<rparr>) = None \<and>
         printerOf s (PrinterID j0) \<noteq> None \<longrightarrow>
           fst (Apply (Some cmd) s) =
             Some (InsufficientFilament (PrintWeightInGrams j0) (RemainingWeightInGrams f)))"
    if a: "sint (RemainingWeightInGrams f) < sint (PrintWeightInGrams j0)"
  proof -
    from st a assms(5) have "\<exists>e. fst (step (Some cmd) (printerOf s, filamentOf s, printJobOf s)) = Some e \<and>
        (PrintJob_Validate (j0\<lparr>PrintJob.Status := StatusQueued\<rparr>) = None \<and>
         printerOf s (PrinterID j0) \<noteq> None \<longrightarrow>
          e = InsufficientFilament (PrintWeightInGrams j0) (RemainingWeightInGrams f))"
      by (auto simp del: Of_None split: option.split)
    then obtain e where e: "fst (Apply (Some cmd) s) = Some e"
      and e': "PrintJob_Validate (j0\<lparr>PrintJob.Status := StatusQueued\<rparr>) = None \<and>
         printerOf s (PrinterID j0) \<noteq> None \<longrightarrow>
          e = InsufficientFilament (PrintWeightInGrams j0) (RemainingWeightInGrams f)"
      using fstA by auto
    from Apply_fails_same [OF e] e e' show ?thesis by simp
  qed
  have 2: "fst (Apply (Some cmd) s) = None \<and>
        printJobOf (snd (Apply (Some cmd) s)) =
          (printJobOf s)(PrintJob.ID j0 \<mapsto> j0\<lparr>PrintJob.Status := StatusQueued\<rparr>) \<and>
        filamentOf (snd (Apply (Some cmd) s)) = filamentOf s \<and>
        printerOf (snd (Apply (Some cmd) s)) = printerOf s"
    if a: "sint (PrintWeightInGrams j0) \<le> sint (RemainingWeightInGrams f) \<and>
      PrintJob_Validate (j0\<lparr>PrintJob.Status := StatusQueued\<rparr>) = None \<and>
      printerOf s (PrinterID j0) \<noteq> None"
  proof -
    from a obtain p where p: "printerOf s (PrinterID j0) = Some p" by blast
    from st a assms(5) p have "step (Some cmd) (printerOf s, filamentOf s, printJobOf s) =
        (None, (printerOf s, filamentOf s,
           (printJobOf s)(PrintJob.ID j0 \<mapsto> j0\<lparr>PrintJob.Status := StatusQueued\<rparr>)))"
      by (simp del: Of_None)
    with fstA sndA eq show ?thesis by simp
  qed
  from 1 2 show ?thesis by blast
qed

theorem create_job_checks_filament_witness:
  "Apply (createPrintJob (jobJ1\<lparr>PrintWeightInGrams := 1001\<rparr>))
       (run [createPrinter printerP1, createFilament filamentF1] NewStore) =
     (Some (InsufficientFilament 1001 1000), run [createPrinter printerP1, createFilament filamentF1] NewStore) \<and>
   fst (Apply (createPrintJob (jobJ1\<lparr>PrintWeightInGrams := 1000\<rparr>))
       (run [createPrinter printerP1, createFilament filamentF1] NewStore)) = None \<and>
   printJobOf (snd (Apply (createPrintJob (jobJ1\<lparr>PrintWeightInGrams := 1000\<rparr>))
       (run [createPrinter printerP1, createFilament filamentF1] NewStore))) ''j1'' =
     Some (jobJ1\<lparr>PrintWeightInGrams := 1000, PrintJob.Status := StatusQueued\<rparr>) \<and>
   filamentOf (snd (Apply (createPrintJob (jobJ1\<lparr>PrintWeightInGrams := 1000\<rparr>))
       (run [createPrinter printerP1, createFilament filamentF1] NewStore))) ''f1'' = Some filamentF1"
proof -
  let ?s = "run [createPrinter printerP1, createFilament filamentF1] NewStore"
  let ?big = "jobJ1\<lparr>PrintWeightInGrams := 1001\<rparr>"
  let ?fit = "jobJ1\<lparr>PrintWeightInGrams := 1000\<rparr>"
  have w: "wf ?s" by (rule wf_run [OF wf_NewStore])
  have f: "filamentOf ?s (FilamentID ?big) = Some filamentF1" "filamentOf ?s (FilamentID ?fit) = Some filamentF1"
    "filamentOf ?s ''f1'' = Some filamentF1"
    and p: "printerOf ?s (PrinterID ?big) \<noteq> None" "printerOf ?s (PrinterID ?fit) \<noteq> None"
    by (simp_all add: eval_defs Of_defs deref_def)
  have v: "PrintJob_Validate (?big\<lparr>PrintJob.Status := StatusQueued\<rparr>) = None"
      "PrintJob_Validate (?fit\<lparr>PrintJob.Status := StatusQueued\<rparr>) = None"
    by (simp_all add: eval_defs)
  have n: "sint (RemainingWeightInGrams filamentF1) < sint (PrintWeightInGrams ?big)"
      "sint (PrintWeightInGrams ?fit) \<le> sint (RemainingWeightInGrams filamentF1)"
      "PrintWeightInGrams ?big = 1001" "RemainingWeightInGrams filamentF1 = 1000" "PrintJob.ID ?fit = ''j1''"
    by (simp_all add: jobJ1_def filamentF1_def)
  have a: "fst (Apply (createPrintJob ?big) ?s) = Some (InsufficientFilament 1001 1000) \<and>
      snd (Apply (createPrintJob ?big) ?s) = ?s"
    using create_job_checks_filament [OF w _ _ _ f(1), of
        "\<lparr>Op = OpCreate, EntityType = EntityPrintJob, Payload = noPayload\<lparr>asPrintJob := Some ?big\<rparr>\<rparr>"]
      v(1) p(1) n(1,3,4)
    by (simp add: createPrintJob_def command_def del: Of_None)
  have b: "fst (Apply (createPrintJob ?fit) ?s) = None \<and>
      printJobOf (snd (Apply (createPrintJob ?fit) ?s)) =
        (printJobOf ?s)(''j1'' \<mapsto> ?fit\<lparr>PrintJob.Status := StatusQueued\<rparr>) \<and>
      filamentOf (snd (Apply (createPrintJob ?fit) ?s)) = filamentOf ?s"
    using create_job_checks_filament [OF w _ _ _ f(2), of
        "\<lparr>Op = OpCreate, EntityType = EntityPrintJob, Payload = noPayload\<lparr>asPrintJob := Some ?fit\<rparr>\<rparr>"]
      v(2) p(2) n(2,5)
    by (simp add: createPrintJob_def command_def del: Of_None)
  from a b f(3) show ?thesis by (simp add: prod_eq_iff)
qed



text \<open>
  C6. After any log applied to \<open>NewStore\<close>, every filament in the store has
  \<open>0 \<le> remaining \<le> total\<close> and \<open>0 < total\<close>, as signed integers.
\<close>

theorem filament_weights_in_range:
  "filamentOf (run ds NewStore) k = Some f \<Longrightarrow>
   0 \<le> sint (RemainingWeightInGrams f) \<and>
   sint (RemainingWeightInGrams f) \<le> sint (TotalWeightInGrams f) \<and>
   0 < sint (TotalWeightInGrams f)"
  using sound_run [OF wf_NewStore sound_NewStore, of ds]
  by (simp add: sound_def contents_def weights_ok_def)

theorem filament_weights_in_range_witness:
  "filamentOf (run (overdrawLog @ [updatePrintJob ''j1'' StatusDone]) NewStore) ''f1'' =
     Some (filamentF1\<lparr>RemainingWeightInGrams := 0\<rparr>) \<and>
   0 \<le> sint (RemainingWeightInGrams (filamentF1\<lparr>RemainingWeightInGrams := 0\<rparr>)) \<and>
   sint (RemainingWeightInGrams (filamentF1\<lparr>RemainingWeightInGrams := 0\<rparr>))
     \<le> sint (TotalWeightInGrams (filamentF1\<lparr>RemainingWeightInGrams := 0\<rparr>)) \<and>
   0 < sint (TotalWeightInGrams (filamentF1\<lparr>RemainingWeightInGrams := 0\<rparr>))"
proof -
  have h: "filamentOf (run (overdrawLog @ [updatePrintJob ''j1'' StatusDone]) NewStore) ''f1'' =
     Some (filamentF1\<lparr>RemainingWeightInGrams := 0\<rparr>)"
    by (simp add: eval_defs overdrawLog_def Of_defs deref_def)
  from filament_weights_in_range [OF h] h show ?thesis by simp
qed



text \<open>
  C8. On a well-formed store, a printer or filament \<open>create\<close> whose decoded record passes
  validation returns success and puts the record at its id, whether or not the id was
  already taken (the old record is replaced, no error is raised); an \<open>update\<close> with a valid
  record whose id is absent returns the not-found error and leaves the store as it was.
\<close>

theorem Create_overwrites:
  assumes "wf s"
  shows
    "(EntityType cmd = EntityPrinter \<and> asPrinter (Payload cmd) = Some p \<and> Printer_Validate p = None \<longrightarrow>
        (Op cmd = OpCreate \<longrightarrow>
           fst (Apply (Some cmd) s) = None \<and>
           printerOf (snd (Apply (Some cmd) s)) = (printerOf s)(Printer.ID p \<mapsto> p)) \<and>
        (Op cmd = OpUpdate \<and> printerOf s (Printer.ID p) = None \<longrightarrow>
           Apply (Some cmd) s = (Some (PrinterNotFound (Printer.ID p)), s))) \<and>
     (EntityType cmd = EntityFilament \<and> asFilament (Payload cmd) = Some f \<and> Filament_Validate f = None \<longrightarrow>
        (Op cmd = OpCreate \<longrightarrow>
           fst (Apply (Some cmd) s) = None \<and>
           filamentOf (snd (Apply (Some cmd) s)) = (filamentOf s)(Filament.ID f \<mapsto> f)) \<and>
        (Op cmd = OpUpdate \<and> filamentOf s (Filament.ID f) = None \<longrightarrow>
           Apply (Some cmd) s = (Some (FilamentNotFound (Filament.ID f)), s)))"
  using assms
  by (simp add: Apply_def applyPrinterCommand_def applyFilamentCommand_def
      printerOf_create filamentOf_create Entity_defs Op_defs)

theorem Create_overwrites_witness:
  "printerOf (run [createPrinter printerP1] NewStore) ''p1'' = Some printerP1 \<and>
   fst (Apply (createPrinter (printerP1\<lparr>Model := ''XL''\<rparr>)) (run [createPrinter printerP1] NewStore)) = None \<and>
   printerOf (snd (Apply (createPrinter (printerP1\<lparr>Model := ''XL''\<rparr>)) (run [createPrinter printerP1] NewStore))) ''p1''
     = Some (printerP1\<lparr>Model := ''XL''\<rparr>) \<and>
   Apply (updateFilament filamentF1) (run [createPrinter printerP1] NewStore) =
     (Some (FilamentNotFound ''f1''), run [createPrinter printerP1] NewStore)"
proof -
  let ?s = "run [createPrinter printerP1] NewStore"
  let ?p = "printerP1\<lparr>Model := ''XL''\<rparr>"
  have w: "wf ?s" by (rule wf_run [OF wf_NewStore])
  have s1: "printerOf ?s ''p1'' = Some printerP1"
    by (simp add: eval_defs printerOf_def deref_def)
  have s2: "filamentOf ?s (Filament.ID filamentF1) = None"
    by (simp add: eval_defs filamentOf_def deref_def)
  have v1: "Printer_Validate ?p = None" and v2: "Filament_Validate filamentF1 = None"
    by (simp_all add: eval_defs)
  have id: "Printer.ID ?p = ''p1''" "Filament.ID filamentF1 = ''f1''"
    by (simp_all add: printerP1_def filamentF1_def)
  have c: "fst (Apply (createPrinter ?p) ?s) = None \<and>
           printerOf (snd (Apply (createPrinter ?p) ?s)) = (printerOf ?s)(Printer.ID ?p \<mapsto> ?p)"
    using Create_overwrites [OF w, of "\<lparr>Op = OpCreate, EntityType = EntityPrinter,
        Payload = noPayload\<lparr>asPrinter := Some ?p\<rparr>\<rparr>" ?p filamentF1] v1
    by (simp add: createPrinter_def command_def Entity_defs)
  have u: "Apply (updateFilament filamentF1) ?s = (Some (FilamentNotFound (Filament.ID filamentF1)), ?s)"
    using Create_overwrites [OF w, of "\<lparr>Op = OpUpdate, EntityType = EntityFilament,
        Payload = noPayload\<lparr>asFilament := Some filamentF1\<rparr>\<rparr>" printerP1 filamentF1] v2 s2
    by (simp add: updateFilament_def command_def Entity_defs)
  from c u s1 show ?thesis by (simp add: id)
qed




text \<open>
  C10. A command whose entity type is none of \<open>printer\<close>, \<open>filament\<close>, \<open>print_job\<close>, or
  whose operation is none of \<open>create\<close>, \<open>update\<close>, \<open>delete\<close>, is answered by an error
  that names the unknown type (when the type is unknown) or the unknown operation (when the
  type is known), and the store is left as it was.
\<close>

theorem Apply_unknown:
  "EntityType cmd \<notin> {EntityPrinter, EntityFilament, EntityPrintJob} \<or>
   Op cmd \<notin> {OpCreate, OpUpdate, OpDelete} \<Longrightarrow>
   Apply (Some cmd) s =
     (Some (if EntityType cmd = EntityPrinter then UnknownPrinterOperation (Op cmd)
            else if EntityType cmd = EntityFilament then UnknownFilamentOperation (Op cmd)
            else if EntityType cmd = EntityPrintJob then UnknownPrintJobOperation (Op cmd)
            else UnknownEntityType (EntityType cmd)), s)"
  by (auto simp: Apply_def applyPrinterCommand_def applyFilamentCommand_def applyPrintJobCommand_def)

theorem Apply_unknown_witness:
  "Apply (command ''rename'' EntityPrinter noPayload) NewStore =
     (Some (UnknownPrinterOperation ''rename''), NewStore) \<and>
   Apply (command OpCreate ''nozzle'' noPayload) NewStore =
     (Some (UnknownEntityType ''nozzle''), NewStore)"
  using Apply_unknown [of "\<lparr>Op = ''rename'', EntityType = EntityPrinter, Payload = noPayload\<rparr>" NewStore]
    Apply_unknown [of "\<lparr>Op = OpCreate, EntityType = ''nozzle'', Payload = noPayload\<rparr>" NewStore]
  by (simp add: command_def Entity_defs Op_defs)

end
